theory Spec2Isabelle
  imports Complex_Main
begin

section \<open>Values\<close>

text \<open>
  The values that \<^verbatim>\<open>json.loads\<close> and \<^verbatim>\<open>request.json()\<close> produce: \<^verbatim>\<open>None\<close>, booleans,
  integers, floats, strings, lists, and dicts with string keys. A finite float is the
  rational it denotes (so \<^verbatim>\<open>0.0\<close> and \<^verbatim>\<open>-0.0\<close>, which Python's \<^verbatim>\<open>==\<close> equates, are one
  value); \<^verbatim>\<open>Infinity\<close>, \<^verbatim>\<open>-Infinity\<close> and \<^verbatim>\<open>NaN\<close>, which \<^verbatim>\<open>json.loads\<close> accepts, are values of
  their own. A dict is an association list in insertion order, as Python keeps it; lookup
  takes the first binding. A Python \<^verbatim>\<open>str\<close> is a HOL string holding its UTF-8 bytes, so
  \<^verbatim>\<open>.encode("utf-8")\<close> is the identity on it; a \<^verbatim>\<open>str\<close> with a lone surrogate has no
  UTF-8 bytes and is not among these values.
\<close>

datatype pyfloat = Finite rat | PosInf | NegInf | NaN

datatype json =
    JNull
  | JBool bool
  | JInt int
  | JFloat pyfloat
  | JStr string
  | JArr "json list"
  | JObj "(string \<times> json) list"

text \<open>Python truth value testing (\<^verbatim>\<open>not x\<close>, \<^verbatim>\<open>x or y\<close>): of the floats only zero is falsy.\<close>

fun py_truthy :: "json \<Rightarrow> bool" where
  "py_truthy JNull = False"
| "py_truthy (JBool b) = b"
| "py_truthy (JInt i) = (i \<noteq> 0)"
| "py_truthy (JFloat f) = (f \<noteq> Finite 0)"
| "py_truthy (JStr s) = (s \<noteq> [])"
| "py_truthy (JArr xs) = (xs \<noteq> [])"
| "py_truthy (JObj kvs) = (kvs \<noteq> [])"



definition dict_get_default :: "(string \<times> json) list \<Rightarrow> string \<Rightarrow> json \<Rightarrow> json" where
  "dict_get_default d k dflt = (case map_of d k of None \<Rightarrow> dflt | Some v \<Rightarrow> v)"

fun dict_setitem :: "string \<Rightarrow> json \<Rightarrow> (string \<times> json) list \<Rightarrow> (string \<times> json) list" where
  "dict_setitem k v [] = [(k, v)]"
| "dict_setitem k v ((k', v') # d) =
     (if k' = k then (k, v) # d else (k', v') # dict_setitem k v d)"

text \<open>
  Python's \<^verbatim>\<open>==\<close> on these values. Booleans, integers and finite floats compare by
  numeric value (\<^verbatim>\<open>True == 1 == 1.0\<close>); an infinity equals itself only; \<^verbatim>\<open>NaN\<close> equals
  nothing, itself included. Lists compare element by element and dicts key by key, and
  there an element is equal when it is the same object or \<^verbatim>\<open>==\<close>: \<^verbatim>\<open>json.loads\<close> returns
  the one object \<^verbatim>\<open>json.decoder.NaN\<close> for every \<^verbatim>\<open>NaN\<close>, so inside a list or dict \<^verbatim>\<open>NaN\<close>
  equals \<^verbatim>\<open>NaN\<close>.
\<close>

fun num_value :: "json \<Rightarrow> rat option" where
  "num_value (JBool b) = Some (if b then 1 else 0)"
| "num_value (JInt i) = Some (of_int i)"
| "num_value (JFloat (Finite r)) = Some r"
| "num_value _ = None"

fun py_eq :: "json \<Rightarrow> json \<Rightarrow> bool" where
  "py_eq (JArr xs) y =
     (case y of
        JArr ys \<Rightarrow> list_all2 (\<lambda>x y. (x = JFloat NaN \<and> y = JFloat NaN) \<or> py_eq x y) xs ys
      | _ \<Rightarrow> False)"
| "py_eq (JObj a) y =
     (case y of
        JObj b \<Rightarrow>
          length a = length b
          \<and> list_all (\<lambda>(k, v). case map_of b k of
                                   None \<Rightarrow> False
                                 | Some w \<Rightarrow> (v = JFloat NaN \<and> w = JFloat NaN) \<or> py_eq v w) a
      | _ \<Rightarrow> False)"
| "py_eq (JStr s) y = (y = JStr s)"
| "py_eq JNull y = (y = JNull)"
| "py_eq (JBool b) y = (num_value y = Some (if b then 1 else 0))"
| "py_eq (JInt i) y = (num_value y = Some (of_int i))"
| "py_eq (JFloat f) y =
     (case f of
        Finite r \<Rightarrow> num_value y = Some r
      | PosInf \<Rightarrow> y = JFloat PosInf
      | NegInf \<Rightarrow> y = JFloat NegInf
      | NaN \<Rightarrow> False)"

text \<open>
  What \<^verbatim>\<open>JSONResponse(content)\<close> accepts: it renders with \<^verbatim>\<open>allow_nan=False\<close>, so a
  \<^verbatim>\<open>NaN\<close> or an infinity anywhere in the content raises \<^verbatim>\<open>ValueError\<close>.
\<close>

fun json_compliant :: "json \<Rightarrow> bool" where
  "json_compliant (JFloat f) = (case f of Finite _ \<Rightarrow> True | _ \<Rightarrow> False)"
| "json_compliant (JArr xs) = list_all json_compliant xs"
| "json_compliant (JObj d) = list_all (\<lambda>(k, v). json_compliant v) d"
| "json_compliant _ = True"




section \<open>Errors\<close>

text \<open>
  Every exception the modelled code can raise. \<open>HTTPException\<close> carries the status code
  and the detail.
\<close>

datatype error =
    HTTPException int string
  | FileNotFoundError
  | NotADirectoryError
  | IsADirectoryError
  | UnicodeDecodeError
  | JSONDecodeError
  | ValueError
  | KeyError
  | TypeError
  | AttributeError

section \<open>Storage\<close>

text \<open>
  A file is modelled by what \<^verbatim>\<open>json.loads(path.read_text(encoding="utf-8"))\<close> makes of
  its bytes: bytes that are not UTF-8 (\<^verbatim>\<open>read_text\<close> raises \<^verbatim>\<open>UnicodeDecodeError\<close>), text
  that is not JSON (\<^verbatim>\<open>json.loads\<close> raises \<^verbatim>\<open>json.JSONDecodeError\<close>), or the JSON text of a
  value. \<^verbatim>\<open>path.write_text(json.dumps(v, indent=2), encoding="utf-8")\<close> leaves the JSON text
  of \<open>v\<close>.

  The storage is the file system: \<open>index_file\<close> is the regular file \<^verbatim>\<open>INDEX_PATH\<close> (\<open>None\<close>
  when it is missing), \<open>conv_dir\<close> the regular files of \<^verbatim>\<open>CONV_DIR\<close> by name, \<open>base_dir\<close> the
  components of the resolved \<^verbatim>\<open>BASE_DIR\<close>, and \<open>elsewhere\<close> every other node, by the
  components of its absolute path. \<^verbatim>\<open>CONV_DIR\<close> and its ancestors are directories (the
  startup handler made them) and \<^verbatim>\<open>CONV_DIR\<close> holds regular files only. There are no
  symbolic links; permissions and the limits of the platform (length of a file name,
  recursion depth of the JSON codec, disk space) are not modelled, and requests run one
  after the other.
\<close>

datatype artifact = Not_utf8 | Not_json | Json_text json

datatype node = Directory | Regular artifact

record storage =
  index_file :: "artifact option"
  conv_dir :: "string \<Rightarrow> artifact option"
  base_dir :: "string list"
  elsewhere :: "string list \<Rightarrow> node option"









definition read_json :: "artifact option \<Rightarrow> error + json" where
  "read_json f =
     (case f of
        None \<Rightarrow> Inl FileNotFoundError
      | Some Not_utf8 \<Rightarrow> Inl UnicodeDecodeError
      | Some Not_json \<Rightarrow> Inl JSONDecodeError
      | Some (Json_text v) \<Rightarrow> Inr v)"

text \<open>\<^verbatim>\<open>_ensure_data_dirs\<close>: the index is created as \<^verbatim>\<open>[]\<close> when it does not exist.\<close>

definition ensure_data_dirs :: "storage \<Rightarrow> storage" where
  "ensure_data_dirs st =
     (if index_file st = None then st\<lparr>index_file := Some (Json_text (JArr []))\<rparr> else st)"

text \<open>\<^verbatim>\<open>_load_index\<close>: only \<^verbatim>\<open>json.JSONDecodeError\<close> is caught.\<close>

definition load_index :: "storage \<Rightarrow> error + json" where
  "load_index st =
     (case read_json (index_file st) of
        Inl JSONDecodeError \<Rightarrow> Inr (JArr [])
      | Inl e \<Rightarrow> Inl e
      | Inr v \<Rightarrow> Inr v)"

text \<open>\<^verbatim>\<open>_save_index\<close>.\<close>

definition save_index :: "json \<Rightarrow> storage \<Rightarrow> storage" where
  "save_index items st = st\<lparr>index_file := Some (Json_text items)\<rparr>"

text \<open>
  \<^verbatim>\<open>_conversation_path\<close>: the name that is joined to \<^verbatim>\<open>CONV_DIR\<close>. For the handlers
  \<open>get_conversation\<close> and \<open>delete_conversation\<close> the id is the path parameter of the route
  \<^verbatim>\<open>/api/conversations/{conv_id}\<close>, which holds no \<^verbatim>\<open>/\<close>: the name is one component and
  means the file of that name in \<^verbatim>\<open>CONV_DIR\<close>.
\<close>

definition conversation_path :: "string \<Rightarrow> string" where
  "conversation_path conv_id = conv_id @ ''.json''"

text \<open>\<^verbatim>\<open>_load_conversation\<close>: \<open>Inr None\<close> is the Python \<^verbatim>\<open>None\<close> of a missing file.\<close>

definition load_conversation :: "string \<Rightarrow> storage \<Rightarrow> error + json option" where
  "load_conversation conv_id st =
     (let path = conversation_path conv_id in
      case conv_dir st path of
        None \<Rightarrow> Inr None
      | Some f \<Rightarrow> (case read_json (Some f) of Inl e \<Rightarrow> Inl e | Inr v \<Rightarrow> Inr (Some v)))"


text \<open>
  The loop of \<^verbatim>\<open>_upsert_index_entry\<close> over a list: \<open>Inr (Some items')\<close> when an item
  with the id was found and updated in place, \<open>Inr None\<close> when the loop ran to its end.
  \<^verbatim>\<open>item["id"]\<close> raises \<^verbatim>\<open>KeyError\<close> on a dict without the key and \<^verbatim>\<open>TypeError\<close> on an
  item that is not a dict. \<^verbatim>\<open>conv_id\<close> is a \<^verbatim>\<open>str\<close>, which Python's \<^verbatim>\<open>==\<close> equates with an
  equal \<^verbatim>\<open>str\<close> only.
\<close>

fun upsert_loop :: "string \<Rightarrow> json \<Rightarrow> json \<Rightarrow> json list \<Rightarrow> error + json list option" where
  "upsert_loop conv_id title updated_at [] = Inr None"
| "upsert_loop conv_id title updated_at (item # rest) =
     (case item of
        JObj d \<Rightarrow>
          (case map_of d ''id'' of
             None \<Rightarrow> Inl KeyError
           | Some v \<Rightarrow>
               if v = JStr conv_id
               then Inr (Some (JObj (dict_setitem ''updated_at'' updated_at
                                       (dict_setitem ''title'' title d)) # rest))
               else (case upsert_loop conv_id title updated_at rest of
                       Inl e \<Rightarrow> Inl e
                     | Inr None \<Rightarrow> Inr None
                     | Inr (Some rest') \<Rightarrow> Inr (Some (item # rest'))))
      | _ \<Rightarrow> Inl TypeError)"

text \<open>
  \<^verbatim>\<open>_upsert_index_entry\<close> on a \<^verbatim>\<open>str\<close> id, as its annotation has it. When the loaded
  index is not a list: iterating a non-empty dict or string gives strings, on which
  \<^verbatim>\<open>item["id"]\<close> raises \<^verbatim>\<open>TypeError\<close>; an empty one has no \<^verbatim>\<open>append\<close>
  (\<^verbatim>\<open>AttributeError\<close>); the other values are not iterable.
\<close>

definition upsert_index_entry ::
  "string \<Rightarrow> json \<Rightarrow> json \<Rightarrow> json \<Rightarrow> storage \<Rightarrow> (error + unit) \<times> storage" where
  "upsert_index_entry conv_id title updated_at created_at st =
     (case load_index st of
        Inl e \<Rightarrow> (Inl e, st)
      | Inr (JArr items) \<Rightarrow>
          (case upsert_loop conv_id title updated_at items of
             Inl e \<Rightarrow> (Inl e, st)
           | Inr (Some items') \<Rightarrow> (Inr (), save_index (JArr items') st)
           | Inr None \<Rightarrow>
               (Inr (), save_index (JArr (items @
                  [JObj [(''id'', JStr conv_id), (''title'', title),
                         (''created_at'', created_at), (''updated_at'', updated_at)]])) st))
      | Inr (JObj d) \<Rightarrow> (if d = [] then (Inl AttributeError, st) else (Inl TypeError, st))
      | Inr (JStr s) \<Rightarrow> (if s = [] then (Inl AttributeError, st) else (Inl TypeError, st))
      | Inr _ \<Rightarrow> (Inl TypeError, st))"

text \<open>
  \<^verbatim>\<open>_upsert_index_entry\<close> as \<open>save_conversation\<close> calls it: the id is whatever the payload
  gave, and \<^verbatim>\<open>item["id"] == conv_id\<close> is Python's \<^verbatim>\<open>==\<close>. On a \<^verbatim>\<open>str\<close> id this is
  \<open>upsert_index_entry\<close> (lemma \<open>upsert_index_entry_any_str\<close>).
\<close>

fun upsert_loop_any :: "json \<Rightarrow> json \<Rightarrow> json \<Rightarrow> json list \<Rightarrow> error + json list option" where
  "upsert_loop_any conv_id title updated_at [] = Inr None"
| "upsert_loop_any conv_id title updated_at (item # rest) =
     (case item of
        JObj d \<Rightarrow>
          (case map_of d ''id'' of
             None \<Rightarrow> Inl KeyError
           | Some v \<Rightarrow>
               if py_eq v conv_id
               then Inr (Some (JObj (dict_setitem ''updated_at'' updated_at
                                       (dict_setitem ''title'' title d)) # rest))
               else (case upsert_loop_any conv_id title updated_at rest of
                       Inl e \<Rightarrow> Inl e
                     | Inr None \<Rightarrow> Inr None
                     | Inr (Some rest') \<Rightarrow> Inr (Some (item # rest'))))
      | _ \<Rightarrow> Inl TypeError)"

definition upsert_index_entry_any ::
  "json \<Rightarrow> json \<Rightarrow> json \<Rightarrow> json \<Rightarrow> storage \<Rightarrow> (error + unit) \<times> storage" where
  "upsert_index_entry_any conv_id title updated_at created_at st =
     (case load_index st of
        Inl e \<Rightarrow> (Inl e, st)
      | Inr (JArr items) \<Rightarrow>
          (case upsert_loop_any conv_id title updated_at items of
             Inl e \<Rightarrow> (Inl e, st)
           | Inr (Some items') \<Rightarrow> (Inr (), save_index (JArr items') st)
           | Inr None \<Rightarrow>
               (Inr (), save_index (JArr (items @
                  [JObj [(''id'', conv_id), (''title'', title),
                         (''created_at'', created_at), (''updated_at'', updated_at)]])) st))
      | Inr (JObj d) \<Rightarrow> (if d = [] then (Inl AttributeError, st) else (Inl TypeError, st))
      | Inr (JStr s) \<Rightarrow> (if s = [] then (Inl AttributeError, st) else (Inl TypeError, st))
      | Inr _ \<Rightarrow> (Inl TypeError, st))"

section \<open>Conversation handlers\<close>


text \<open>\<^verbatim>\<open>JSONResponse(content)\<close>, which renders the content when it is made.\<close>

definition json_response :: "json \<Rightarrow> error + json" where
  "json_response content = (if json_compliant content then Inr content else Inl ValueError)"

text \<open>\<^verbatim>\<open>list_conversations\<close>.\<close>

definition list_conversations :: "storage \<Rightarrow> (error + json) \<times> storage" where
  "list_conversations st =
     (case load_index st of
        Inl e \<Rightarrow> (Inl e, st)
      | Inr items \<Rightarrow> (json_response items, st))"

text \<open>\<^verbatim>\<open>get_conversation\<close>: \<^verbatim>\<open>not data\<close> holds for \<^verbatim>\<open>None\<close> and for every falsy value.\<close>

definition get_conversation :: "string \<Rightarrow> storage \<Rightarrow> (error + json) \<times> storage" where
  "get_conversation conv_id st =
     (case load_conversation conv_id st of
        Inl e \<Rightarrow> (Inl e, st)
      | Inr None \<Rightarrow> (Inl (HTTPException 404 ''conversation not found''), st)
      | Inr (Some data) \<Rightarrow>
          if \<not> py_truthy data then (Inl (HTTPException 404 ''conversation not found''), st)
          else (json_response data, st))"


text \<open>
  The list comprehension of \<^verbatim>\<open>delete_conversation\<close> over a list, with the errors of
  \<^verbatim>\<open>item["id"]\<close> as in \<open>upsert_loop\<close>.
\<close>

fun delete_filter :: "string \<Rightarrow> json list \<Rightarrow> error + json list" where
  "delete_filter conv_id [] = Inr []"
| "delete_filter conv_id (item # rest) =
     (case item of
        JObj d \<Rightarrow>
          (case map_of d ''id'' of
             None \<Rightarrow> Inl KeyError
           | Some v \<Rightarrow>
               (case delete_filter conv_id rest of
                  Inl e \<Rightarrow> Inl e
                | Inr rest' \<Rightarrow> Inr (if v \<noteq> JStr conv_id then item # rest' else rest')))
      | _ \<Rightarrow> Inl TypeError)"

text \<open>
  \<^verbatim>\<open>delete_conversation\<close>: the document is unlinked before the index is read, so an error
  of the index part leaves the document removed.
\<close>

definition delete_conversation :: "string \<Rightarrow> storage \<Rightarrow> (error + json) \<times> storage" where
  "delete_conversation conv_id st =
     (case load_conversation conv_id st of
        Inl e \<Rightarrow> (Inl e, st)
      | Inr None \<Rightarrow> (Inl (HTTPException 404 ''conversation not found''), st)
      | Inr (Some data) \<Rightarrow>
          if \<not> py_truthy data then (Inl (HTTPException 404 ''conversation not found''), st)
          else
            (let st1 = st\<lparr>conv_dir := (conv_dir st)(conversation_path conv_id := None)\<rparr> in
             case load_index st1 of
               Inl e \<Rightarrow> (Inl e, st1)
             | Inr (JArr items) \<Rightarrow>
                 (case delete_filter conv_id items of
                    Inl e \<Rightarrow> (Inl e, st1)
                  | Inr items' \<Rightarrow> (Inr (JObj [(''ok'', JBool True)]), save_index (JArr items') st1))
             | Inr (JObj d) \<Rightarrow>
                 (if d = [] then (Inr (JObj [(''ok'', JBool True)]), save_index (JArr []) st1)
                  else (Inl TypeError, st1))
             | Inr (JStr s) \<Rightarrow>
                 (if s = [] then (Inr (JObj [(''ok'', JBool True)]), save_index (JArr []) st1)
                  else (Inl TypeError, st1))
             | Inr _ \<Rightarrow> (Inl TypeError, st1)))"

section \<open>Upstream client\<close>

text \<open>
  What the code reads of an \<^verbatim>\<open>httpx\<close> response: \<^verbatim>\<open>status_code\<close>, the body bytes
  (\<^verbatim>\<open>content\<close>, which is also what \<^verbatim>\<open>aread()\<close> returns), the outcome of \<^verbatim>\<open>json()\<close>, and the
  lines that \<^verbatim>\<open>aiter_lines()\<close> yields. The daemon is a function from the request to its
  response; \<open>api_base\<close> is \<^verbatim>\<open>OLLAMA_API_BASE\<close>. \<^verbatim>\<open>response.text\<close> decodes
  the body with the charset that the response declares and with UTF-8 when it declares
  none; the responses here declare none, or UTF-8. Transport failures and timeouts are
  not modelled.
\<close>

record response =
  status_code :: int
  content :: string
  body_json :: "error + json"
  aiter_lines :: "string list"

record upstream =
  api_base :: string
  http_get :: "string \<Rightarrow> response"
  http_post :: "string \<Rightarrow> json \<Rightarrow> response"

text \<open>
  Decoding bytes as UTF-8. \<open>utf8_seq_len\<close> is the length of the well-formed UTF-8
  sequence at the head of the bytes (0 when there is none), and \<open>utf8_bad_len\<close> the length
  of the ill-formed run that one decoding error covers: the lead byte and the
  continuation bytes that may follow it, as far as they go.

  \<^verbatim>\<open>bytes.decode("utf-8", "ignore")\<close> keeps the well-formed sequences and drops every
  other byte. (CPython drops the ill-formed run at once; the bytes after its first are
  continuation bytes, which start no sequence, so dropping one byte at a time gives the
  same text.) \<^verbatim>\<open>response.text\<close> decodes with \<^verbatim>\<open>errors="replace"\<close>: every ill-formed run
  becomes one \<^verbatim>\<open>U+FFFD\<close>, whose UTF-8 bytes are \<open>EF BF BD\<close>.
\<close>

definition byte_in :: "nat \<Rightarrow> nat \<Rightarrow> char \<Rightarrow> bool" where
  "byte_in lo hi c = (lo \<le> of_char c \<and> of_char c \<le> hi)"

fun utf8_seq_len :: "string \<Rightarrow> nat" where
  "utf8_seq_len [] = 0"
| "utf8_seq_len (b # bs) =
     (if byte_in 0x00 0x7F b then 1
      else if byte_in 0xC2 0xDF b then
        (case bs of
           c1 # _ \<Rightarrow> if byte_in 0x80 0xBF c1 then 2 else 0
         | _ \<Rightarrow> 0)
      else if byte_in 0xE0 0xEF b then
        (case bs of
           c1 # c2 # _ \<Rightarrow>
             if byte_in (if byte_in 0xE0 0xE0 b then 0xA0 else 0x80)
                        (if byte_in 0xED 0xED b then 0x9F else 0xBF) c1
                \<and> byte_in 0x80 0xBF c2
             then 3 else 0
         | _ \<Rightarrow> 0)
      else if byte_in 0xF0 0xF4 b then
        (case bs of
           c1 # c2 # c3 # _ \<Rightarrow>
             if byte_in (if byte_in 0xF0 0xF0 b then 0x90 else 0x80)
                        (if byte_in 0xF4 0xF4 b then 0x8F else 0xBF) c1
                \<and> byte_in 0x80 0xBF c2 \<and> byte_in 0x80 0xBF c3
             then 4 else 0
         | _ \<Rightarrow> 0)
      else 0)"

function decode_utf8_ignore :: "string \<Rightarrow> string" where
  "decode_utf8_ignore [] = []"
| "decode_utf8_ignore (b # bs) =
     (if utf8_seq_len (b # bs) = 0 then decode_utf8_ignore bs
      else take (utf8_seq_len (b # bs)) (b # bs)
           @ decode_utf8_ignore (drop (utf8_seq_len (b # bs)) (b # bs)))"
  by pat_completeness auto
termination
  by (relation "measure length") auto

fun utf8_bad_len :: "string \<Rightarrow> nat" where
  "utf8_bad_len [] = 0"
| "utf8_bad_len (b # bs) =
     (if byte_in 0xE0 0xEF b then
        (case bs of
           c1 # _ \<Rightarrow>
             if byte_in (if byte_in 0xE0 0xE0 b then 0xA0 else 0x80)
                        (if byte_in 0xED 0xED b then 0x9F else 0xBF) c1
             then 2 else 1
         | _ \<Rightarrow> 1)
      else if byte_in 0xF0 0xF4 b then
        (case bs of
           c1 # rest \<Rightarrow>
             if byte_in (if byte_in 0xF0 0xF0 b then 0x90 else 0x80)
                        (if byte_in 0xF4 0xF4 b then 0x8F else 0xBF) c1
             then (case rest of
                     c2 # _ \<Rightarrow> if byte_in 0x80 0xBF c2 then 3 else 2
                   | _ \<Rightarrow> 2)
             else 1
         | _ \<Rightarrow> 1)
      else 1)"

function decode_utf8_replace :: "string \<Rightarrow> string" where
  "decode_utf8_replace [] = []"
| "decode_utf8_replace (b # bs) =
     (if utf8_seq_len (b # bs) = 0
      then [CHR 0xEF, CHR 0xBF, CHR 0xBD]
           @ decode_utf8_replace (drop (utf8_bad_len (b # bs) - 1) bs)
      else take (utf8_seq_len (b # bs)) (b # bs)
           @ decode_utf8_replace (drop (utf8_seq_len (b # bs)) (b # bs)))"
  by pat_completeness auto
termination
  by (relation "measure length") auto

text \<open>\<^verbatim>\<open>response.text\<close>.\<close>

definition response_text :: "response \<Rightarrow> string" where
  "response_text r = decode_utf8_replace (content r)"


definition ollama_post_json :: "upstream \<Rightarrow> string \<Rightarrow> json \<Rightarrow> error + json" where
  "ollama_post_json up path payload =
     (let url = api_base up @ path;
          response = http_post up url payload
      in if status_code response \<ge> 400
         then Inl (HTTPException (status_code response) (response_text response))
         else body_json response)"

text \<open>
  The \<^verbatim>\<open>async for\<close> loop of \<^verbatim>\<open>_ollama_stream\<close>: the chunks it yields for the lines it is
  given, in order.
\<close>

fun relay_lines :: "string list \<Rightarrow> string list" where
  "relay_lines [] = []"
| "relay_lines (line # rest) =
     (if line = [] then relay_lines rest
      else (line @ [CHR 0x0A]) # relay_lines rest)"

text \<open>
  \<^verbatim>\<open>_ollama_stream\<close>, run to its end: the exception it raises before the first chunk, or
  the chunks it yields.
\<close>

definition ollama_stream :: "upstream \<Rightarrow> string \<Rightarrow> json \<Rightarrow> error + string list" where
  "ollama_stream up path payload =
     (let url = api_base up @ path;
          response = http_post up url payload
      in if status_code response \<ge> 400
         then (let detail = content response
               in Inl (HTTPException (status_code response) (decode_utf8_ignore detail)))
         else Inr (relay_lines (aiter_lines response)))"

section \<open>Gateway endpoints\<close>

text \<open>
  The two responses of the endpoints: a JSON response, or a streaming response over the
  generator of \<open>ollama_stream\<close> with its media type. \<^verbatim>\<open>JSONResponse(data)\<close> renders the data
  when it is made, as in \<open>json_response\<close>.
\<close>

datatype http_response =
    JSONResponse json
  | StreamingResponse "error + string list" string

definition json_http_response :: "json \<Rightarrow> error + http_response" where
  "json_http_response data =
     (if json_compliant data then Inr (JSONResponse data) else Inl ValueError)"

definition pull_model :: "upstream \<Rightarrow> json \<Rightarrow> error + http_response" where
  "pull_model up payload =
     (case payload of
        JObj p \<Rightarrow>
          (let stream = dict_get_default p ''stream'' (JBool True) in
           if \<not> py_truthy stream then
             (case ollama_post_json up ''/pull'' payload of
                Inl e \<Rightarrow> Inl e
              | Inr data \<Rightarrow> json_http_response data)
           else Inr (StreamingResponse (ollama_stream up ''/pull'' payload) ''application/x-ndjson''))
      | _ \<Rightarrow> Inl AttributeError)"

definition chat :: "upstream \<Rightarrow> json \<Rightarrow> error + http_response" where
  "chat up payload =
     (case payload of
        JObj p \<Rightarrow>
          (let stream = dict_get_default p ''stream'' (JBool True) in
           if \<not> py_truthy stream then
             (case ollama_post_json up ''/chat'' payload of
                Inl e \<Rightarrow> Inl e
              | Inr data \<Rightarrow> json_http_response data)
           else Inr (StreamingResponse (ollama_stream up ''/chat'' payload) ''application/x-ndjson''))
      | _ \<Rightarrow> Inl AttributeError)"

definition generate :: "upstream \<Rightarrow> json \<Rightarrow> error + http_response" where
  "generate up payload =
     (case payload of
        JObj p \<Rightarrow>
          (let stream = dict_get_default p ''stream'' (JBool True) in
           if \<not> py_truthy stream then
             (case ollama_post_json up ''/generate'' payload of
                Inl e \<Rightarrow> Inl e
              | Inr data \<Rightarrow> json_http_response data)
           else Inr (StreamingResponse (ollama_stream up ''/generate'' payload) ''application/x-ndjson''))
      | _ \<Rightarrow> Inl AttributeError)"

section \<open>Notions used to state the properties\<close>

text \<open>
  A field of an index entry or of a document (\<open>None\<close> when the value is not a dict or has
  no such key), the id of an entry, and the well-formed entries: dicts with an \<^verbatim>\<open>id\<close>.
\<close>

definition entry_field :: "json \<Rightarrow> string \<Rightarrow> json option" where
  "entry_field item k = (case item of JObj d \<Rightarrow> map_of d k | _ \<Rightarrow> None)"

definition entry_id :: "json \<Rightarrow> json option" where
  "entry_id item = entry_field item ''id''"

definition is_entry :: "json \<Rightarrow> bool" where
  "is_entry item = (entry_id item \<noteq> None)"


text \<open>Strict UTF-8: the bytes that \<^verbatim>\<open>bytes.decode("utf-8")\<close> accepts.\<close>

function utf8_valid :: "string \<Rightarrow> bool" where
  "utf8_valid [] = True"
| "utf8_valid (b # bs) =
     (if utf8_seq_len (b # bs) = 0 then False
      else utf8_valid (drop (utf8_seq_len (b # bs)) (b # bs)))"
  by pat_completeness auto
termination
  by (relation "measure length") auto

text \<open>
  The storage the handlers keep: every document artifact holds a non-empty dict, and the
  index is read as a list of well-formed entries. A fresh storage is so;
  \<open>delete_conversation\<close> keeps it so, and \<open>save_conversation\<close> does on every id whose name
  holds no \<^verbatim>\<open>/\<close> (lemmas \<open>store_ok_fresh\<close>, \<open>store_ok_save\<close>, \<open>store_ok_delete\<close> below).
\<close>

definition store_ok :: "storage \<Rightarrow> bool" where
  "store_ok st =
     ((\<forall>name a. conv_dir st name = Some a \<longrightarrow> (\<exists>d. a = Json_text (JObj d) \<and> d \<noteq> []))
      \<and> (\<exists>items. load_index st = Inr (JArr items) \<and> list_all is_entry items))"


section \<open>Concrete inputs\<close>

text \<open>
  The storage after a first boot, the environments of two requests (their \<open>py_repr\<close> is
  never applied: the ids below are strings and integers), and the fields of some
  payloads.
\<close>

definition fresh_store :: storage where
  "fresh_store =
     ensure_data_dirs \<lparr>index_file = None, conv_dir = (\<lambda>_. None),
                       base_dir = [''srv'', ''LocalLlama''], elsewhere = (\<lambda>_. None)\<rparr>"







definition undecodable_store :: storage where
  "undecodable_store =
     \<lparr>index_file = Some Not_utf8, conv_dir = (\<lambda>_. None),
      base_dir = [''srv'', ''LocalLlama''], elsewhere = (\<lambda>_. None)\<rparr>"

text \<open>
  A daemon that answers every request with status 500 and the body \<^verbatim>\<open>model not found\<close>,
  one that answers 500 with the one body byte \<open>0xFF\<close>, and one that answers 200 with
  three lines, the second of them empty.
\<close>

definition failing_daemon :: upstream where
  "failing_daemon =
     \<lparr>api_base = ''http://localhost:11434/api'',
      http_get = (\<lambda>url. \<lparr>status_code = 500, content = ''model not found'',
                           body_json = Inl JSONDecodeError, aiter_lines = []\<rparr>),
      http_post = (\<lambda>url payload. \<lparr>status_code = 500, content = ''model not found'',
                           body_json = Inl JSONDecodeError, aiter_lines = []\<rparr>)\<rparr>"


definition streaming_daemon :: upstream where
  "streaming_daemon =
     \<lparr>api_base = ''http://localhost:11434/api'',
      http_get = (\<lambda>url. \<lparr>status_code = 200, content = ''{}'',
                           body_json = Inr (JObj []), aiter_lines = [''{}'']\<rparr>),
      http_post = (\<lambda>url payload. \<lparr>status_code = 200, content = ''[2]'',
                           body_json = Inr (JArr [JInt 2]),
                           aiter_lines = [''[1]'', [], ''[2]'']\<rparr>)\<rparr>"

section \<open>Lemmas on dicts, the index loops and the storage\<close>

lemma map_of_dict_setitem: "map_of (dict_setitem k v d) = (map_of d)(k \<mapsto> v)"
  by (induction d) (auto simp: fun_eq_iff)

lemma entry_field_setitem:
  "entry_field (JObj (dict_setitem ''updated_at'' u (dict_setitem ''title'' t d))) k =
     (if k = ''updated_at'' then Some u else if k = ''title'' then Some t else map_of d k)"
  by (simp add: entry_field_def map_of_dict_setitem)

text \<open>
  On a \<^verbatim>\<open>str\<close> id the comparison of the upsert is equality of strings, and the upsert
  that \<open>save_conversation\<close> calls is \<open>upsert_index_entry\<close>.
\<close>

lemma py_eq_str: "py_eq v (JStr s) = (v = JStr s)"
  by (cases v) (auto split: pyfloat.splits)

lemma upsert_loop_any_str:
  "upsert_loop_any (JStr cid) title updated_at items = upsert_loop cid title updated_at items"
  by (induction items) (simp_all add: py_eq_str split: json.splits option.splits)

lemma upsert_index_entry_any_str:
  "upsert_index_entry_any (JStr cid) title updated_at created_at st =
     upsert_index_entry cid title updated_at created_at st"
  by (simp add: upsert_index_entry_any_def upsert_index_entry_def upsert_loop_any_str
           split: sum.splits json.splits)











text \<open>
  The index is read from the index file alone.
\<close>

lemma load_index_conv_dir [simp]:
  "load_index (st\<lparr>conv_dir := c\<rparr>) = load_index st"
  by (simp add: load_index_def)

lemma load_index_elsewhere [simp]:
  "load_index (st\<lparr>elsewhere := c\<rparr>) = load_index st"
  by (simp add: load_index_def)

lemma load_index_saved [simp]:
  "load_index (st\<lparr>index_file := Some (Json_text v)\<rparr>) = Inr v"
  by (simp add: load_index_def read_json_def)



text \<open>
  On an index that holds a dict the upsert raises.
\<close>

lemma upsert_index_entry_any_on_dict:
  assumes "load_index st = Inr (JObj d)"
  shows "fst (upsert_index_entry_any cid t u c st) \<noteq> Inr w"
  using assms by (simp add: upsert_index_entry_any_def)

text \<open>
  On a list of well-formed entries neither loop raises: the comprehension of
  \<open>delete_conversation\<close> is a filter, and the loop of \<open>upsert_index_entry\<close> either runs to
  its end or updates the first entry with the id in place.
\<close>

lemma delete_filter_entries:
  "list_all is_entry items \<Longrightarrow>
   delete_filter cid items = Inr (filter (\<lambda>item. entry_id item \<noteq> Some (JStr cid)) items)"
  by (induction items) (auto simp: is_entry_def entry_id_def entry_field_def split: json.splits option.splits)

lemma upsert_loop_absent:
  "list_all is_entry items \<Longrightarrow> Some (JStr cid) \<notin> set (map entry_id items) \<Longrightarrow>
   upsert_loop cid t u items = Inr None"
  by (induction items) (auto simp: is_entry_def entry_id_def entry_field_def split: json.splits option.splits)

lemma upsert_loop_present:
  "list_all is_entry items \<Longrightarrow> Some (JStr cid) \<in> set (map entry_id items) \<Longrightarrow>
   \<exists>i d. i < length items \<and> items ! i = JObj d \<and> map_of d ''id'' = Some (JStr cid)
        \<and> (\<forall>j<i. entry_id (items ! j) \<noteq> Some (JStr cid))
        \<and> upsert_loop cid t u items =
            Inr (Some (items[i := JObj (dict_setitem ''updated_at'' u (dict_setitem ''title'' t d))]))"
proof (induction items)
  case Nil
  then show ?case by simp
next
  case (Cons item rest)
  from Cons.prems(1) obtain d v where item: "item = JObj d" and v: "map_of d ''id'' = Some v"
    by (auto simp: is_entry_def entry_id_def entry_field_def split: json.splits)
  show ?case
  proof (cases "v = JStr cid")
    case True
    have "upsert_loop cid t u (item # rest) =
          Inr (Some ((item # rest)[0 := JObj (dict_setitem ''updated_at'' u (dict_setitem ''title'' t d))]))"
      using item v True by simp
    with item v True show ?thesis
      by (intro exI[of _ 0] exI[of _ d]) simp
  next
    case False
    with item v have nid: "entry_id item \<noteq> Some (JStr cid)"
      by (simp add: entry_id_def entry_field_def)
    with Cons.prems have "list_all is_entry rest" "Some (JStr cid) \<in> set (map entry_id rest)"
      by auto
    from Cons.IH[OF this] obtain i d' where
      i: "i < length rest" "rest ! i = JObj d'" "map_of d' ''id'' = Some (JStr cid)"
         "\<forall>j<i. entry_id (rest ! j) \<noteq> Some (JStr cid)"
         "upsert_loop cid t u rest =
            Inr (Some (rest[i := JObj (dict_setitem ''updated_at'' u (dict_setitem ''title'' t d'))]))"
      by blast
    have before: "\<forall>j<Suc i. entry_id ((item # rest) ! j) \<noteq> Some (JStr cid)"
      using nid i(4) by (auto simp: nth_Cons split: nat.splits)
    have "upsert_loop cid t u (item # rest) =
          Inr (Some ((item # rest)[Suc i := JObj (dict_setitem ''updated_at'' u (dict_setitem ''title'' t d'))]))"
      using item v False i(5) by simp
    with i(1-3) before show ?thesis
      by (intro exI[of _ "Suc i"] exI[of _ d']) simp
  qed
qed

lemma upsert_index_entry_absent:
  assumes idx: "load_index st = Inr (JArr items)" and wf: "list_all is_entry items"
    and absent: "Some (JStr cid) \<notin> set (map entry_id items)"
  shows "upsert_index_entry cid title updated_at created_at st =
           (Inr (), st\<lparr>index_file := Some (Json_text (JArr (items @
              [JObj [(''id'', JStr cid), (''title'', title),
                     (''created_at'', created_at), (''updated_at'', updated_at)]])))\<rparr>)"
proof -
  from wf absent have "upsert_loop cid title updated_at items = Inr None"
    by (rule upsert_loop_absent)
  with idx show ?thesis
    by (simp add: upsert_index_entry_def save_index_def)
qed

lemma upsert_index_entry_present:
  assumes idx: "load_index st = Inr (JArr items)" and wf: "list_all is_entry items"
    and present: "Some (JStr cid) \<in> set (map entry_id items)"
  shows "\<exists>i d. i < length items \<and> items ! i = JObj d \<and> map_of d ''id'' = Some (JStr cid)
           \<and> (\<forall>j<i. entry_id (items ! j) \<noteq> Some (JStr cid))
           \<and> upsert_index_entry cid title updated_at created_at st =
               (Inr (), st\<lparr>index_file := Some (Json_text (JArr
                  (items[i := JObj (dict_setitem ''updated_at'' updated_at
                                      (dict_setitem ''title'' title d))])))\<rparr>)"
proof -
  from upsert_loop_present[OF wf present, of title updated_at] obtain i d where
    i: "i < length items" "items ! i = JObj d" "map_of d ''id'' = Some (JStr cid)"
       "\<forall>j<i. entry_id (items ! j) \<noteq> Some (JStr cid)"
       "upsert_loop cid title updated_at items =
          Inr (Some (items[i := JObj (dict_setitem ''updated_at'' updated_at
                                        (dict_setitem ''title'' title d))]))"
    by blast
  have "upsert_index_entry cid title updated_at created_at st =
          (Inr (), st\<lparr>index_file := Some (Json_text (JArr
             (items[i := JObj (dict_setitem ''updated_at'' updated_at
                                 (dict_setitem ''title'' title d))])))\<rparr>)"
    using idx i(5) by (simp add: upsert_index_entry_def save_index_def)
  with i(1-4) show ?thesis by blast
qed


lemma upsert_index_entry_ok:
  assumes idx: "load_index st = Inr (JArr items)" and wf: "list_all is_entry items"
  shows "\<exists>items'. upsert_index_entry cid title updated_at created_at st =
           (Inr (), st\<lparr>index_file := Some (Json_text (JArr items'))\<rparr>)
         \<and> list_all is_entry items'"
proof (cases "Some (JStr cid) \<in> set (map entry_id items)")
  case True
  from upsert_index_entry_present[OF idx wf True,
        where title = title and created_at = created_at and updated_at = updated_at]
  obtain i d where
      i: "i < length items" "items ! i = JObj d" "map_of d ''id'' = Some (JStr cid)"
      and run: "upsert_index_entry cid title updated_at created_at st =
            (Inr (), st\<lparr>index_file := Some (Json_text (JArr
               (items[i := JObj (dict_setitem ''updated_at'' updated_at
                                   (dict_setitem ''title'' title d))])))\<rparr>)"
    by blast
  have "is_entry (JObj (dict_setitem ''updated_at'' updated_at (dict_setitem ''title'' title d)))"
    using i(3) by (simp add: is_entry_def entry_id_def entry_field_setitem)
  with wf have "list_all is_entry (items[i := JObj (dict_setitem ''updated_at'' updated_at
                                   (dict_setitem ''title'' title d))])"
    using set_update_subset_insert[of items i] by (auto simp: list_all_iff)
  with run show ?thesis by blast
next
  case False
  have "is_entry (JObj [(''id'', JStr cid), (''title'', title),
                     (''created_at'', created_at), (''updated_at'', updated_at)])"
    by (simp add: is_entry_def entry_id_def entry_field_def)
  with wf have "list_all is_entry (items @ [JObj [(''id'', JStr cid), (''title'', title),
                     (''created_at'', created_at), (''updated_at'', updated_at)]])"
    by simp
  with upsert_index_entry_absent[OF idx wf False,
        where title = title and created_at = created_at and updated_at = updated_at]
  show ?thesis by blast
qed


text \<open>
  \<open>delete_conversation\<close> on a document that is there, and what its success says of the
  document.
\<close>

lemma delete_conversation_found:
  assumes doc: "conv_dir st (conversation_path cid) = Some (Json_text doc)"
    and truthy: "py_truthy doc"
    and idx: "load_index st = Inr (JArr items)" and wf: "list_all is_entry items"
  shows "delete_conversation cid st =
           (Inr (JObj [(''ok'', JBool True)]),
            st\<lparr>conv_dir := (conv_dir st)(conversation_path cid := None),
               index_file := Some (Json_text (JArr
                 (filter (\<lambda>item. entry_id item \<noteq> Some (JStr cid)) items)))\<rparr>)"
  using doc truthy idx
  by (simp add: delete_conversation_def load_conversation_def read_json_def
                delete_filter_entries[OF wf] save_index_def)




lemma store_ok_delete:
  assumes ok: "store_ok st"
  shows "store_ok (snd (delete_conversation cid st))"
proof (cases "conv_dir st (conversation_path cid)")
  case None
  with ok show ?thesis
    by (simp add: delete_conversation_def load_conversation_def)
next
  case (Some a)
  with ok obtain d where a: "a = Json_text (JObj d)" and d: "d \<noteq> []"
    by (auto simp: store_ok_def)
  from ok obtain items where
    idx: "load_index st = Inr (JArr items)" and wf: "list_all is_entry items"
    by (auto simp: store_ok_def)
  have "py_truthy (JObj d)" using d by simp
  from delete_conversation_found[OF Some[unfolded a] this idx wf]
  have "snd (delete_conversation cid st) =
          st\<lparr>conv_dir := (conv_dir st)(conversation_path cid := None),
             index_file := Some (Json_text (JArr
               (filter (\<lambda>item. entry_id item \<noteq> Some (JStr cid)) items)))\<rparr>"
    by simp
  moreover have "list_all is_entry (filter (\<lambda>item. entry_id item \<noteq> Some (JStr cid)) items)"
    using wf by (simp add: list_all_iff)
  ultimately show ?thesis
    using ok by (auto simp: store_ok_def)
qed

text \<open>
  The relay loop as a map over the non-empty lines, and both decodings on bytes that are
  strict UTF-8: they return the bytes.
\<close>

lemma relay_lines_eq:
  "relay_lines lines = map (\<lambda>line. line @ [CHR 0x0A]) (filter (\<lambda>line. line \<noteq> []) lines)"
  by (induction lines) simp_all


lemma decode_utf8_replace_valid:
  "utf8_valid bs \<Longrightarrow> decode_utf8_replace bs = bs"
proof (induction bs rule: utf8_valid.induct)
  case 1
  then show ?case by simp
next
  case (2 b bs)
  from "2.prems" have n: "utf8_seq_len (b # bs) \<noteq> 0"
    and rest: "utf8_valid (drop (utf8_seq_len (b # bs)) (b # bs))"
    by (simp_all split: if_splits)
  from "2.IH"[OF n rest]
  have "decode_utf8_replace (drop (utf8_seq_len (b # bs)) (b # bs)) =
          drop (utf8_seq_len (b # bs)) (b # bs)" .
  with n have "decode_utf8_replace (b # bs) =
          take (utf8_seq_len (b # bs)) (b # bs) @ drop (utf8_seq_len (b # bs)) (b # bs)"
    by (simp del: utf8_seq_len.simps)
  then show ?case
    by (simp only: append_take_drop_id)
qed

lemma utf8_valid_ascii:
  "\<forall>c\<in>set bs. byte_in 0x00 0x7F c \<Longrightarrow> utf8_valid bs"
  by (induction bs) simp_all

lemma model_not_found_valid: "utf8_valid ''model not found''"
  by (rule utf8_valid_ascii) (simp add: byte_in_def)

text \<open>
  The concrete storages and saves, evaluated.
\<close>

lemma fresh_store_index: "load_index fresh_store = Inr (JArr [])"
  by (simp add: fresh_store_def ensure_data_dirs_def load_index_def read_json_def)










section \<open>Save, then get\<close>



section \<open>Timestamps\<close>




section \<open>Index upsert\<close>



section \<open>Delete\<close>



section \<open>Streaming relay\<close>

text \<open>
  C5. For every finite upstream line sequence containing N non-empty lines in a 2xx
  streamed response, the streaming relay emits exactly N chunks, in the same order as the
  upstream lines, each chunk being the corresponding line re-terminated with exactly one
  newline; empty lines contribute zero chunks.

  The code relays on every status below 400, which includes the 2xx responses.
\<close>

theorem ollama_stream_relays_lines:
  assumes "status_code (http_post up (api_base up @ path) payload) < 400"
  shows "\<exists>chunks.
           ollama_stream up path payload = Inr chunks
         \<and> chunks = map (\<lambda>line. line @ [CHR 0x0A])
                      (filter (\<lambda>line. line \<noteq> [])
                         (aiter_lines (http_post up (api_base up @ path) payload)))
         \<and> length chunks =
             length (filter (\<lambda>line. line \<noteq> [])
                       (aiter_lines (http_post up (api_base up @ path) payload)))"
  using assms by (simp add: ollama_stream_def Let_def relay_lines_eq)

theorem ollama_stream_relays_lines_witness:
  "status_code (http_post streaming_daemon (api_base streaming_daemon @ ''/generate'') (JObj [])) < 400
   \<and> aiter_lines (http_post streaming_daemon (api_base streaming_daemon @ ''/generate'') (JObj []))
       = [''[1]'', [], ''[2]'']
   \<and> ollama_stream streaming_daemon ''/generate'' (JObj [])
       = Inr [''[1]'' @ [CHR 0x0A], ''[2]'' @ [CHR 0x0A]]"
proof -
  have h: "status_code (http_post streaming_daemon (api_base streaming_daemon @ ''/generate'') (JObj [])) < 400"
    by (simp add: streaming_daemon_def)
  have l: "aiter_lines (http_post streaming_daemon (api_base streaming_daemon @ ''/generate'') (JObj []))
       = [''[1]'', [], ''[2]'']"
    by (simp add: streaming_daemon_def)
  from ollama_stream_relays_lines[OF h] obtain chunks where
    r: "ollama_stream streaming_daemon ''/generate'' (JObj []) = Inr chunks"
       "chunks = map (\<lambda>line. line @ [CHR 0x0A])
                      (filter (\<lambda>line. line \<noteq> [])
                         (aiter_lines (http_post streaming_daemon
                            (api_base streaming_daemon @ ''/generate'') (JObj []))))"
    by blast
  from r(2) have "chunks = [''[1]'' @ [CHR 0x0A], ''[2]'' @ [CHR 0x0A]]"
    by (simp add: l)
  with r(1) h l show ?thesis
    by simp
qed

section \<open>Upstream errors\<close>




section \<open>Listing on a corrupt index\<close>

text \<open>
  C7. For every byte content of the index artifact that is not parseable, the list
  operation does not fail and returns the empty sequence; for parseable content it
  returns the stored entries.

  Both halves hold for an artifact that is text: text that is not JSON gives the empty
  list, JSON text gives its value (when it holds no \<^verbatim>\<open>NaN\<close> or infinity, which
  \<^verbatim>\<open>JSONResponse\<close> refuses).
\<close>

lemma list_conversations_unparseable:
  "index_file st = Some Not_json \<Longrightarrow> list_conversations st = (Inr (JArr []), st)"
  by (simp add: list_conversations_def load_index_def read_json_def json_response_def)

lemma list_conversations_parseable:
  "index_file st = Some (Json_text v) \<Longrightarrow> json_compliant v \<Longrightarrow>
   list_conversations st = (Inr v, st)"
  by (simp add: list_conversations_def load_index_def read_json_def json_response_def)

text \<open>
  C7 at an index artifact whose bytes are not UTF-8: \<^verbatim>\<open>read_text\<close> raises
  \<^verbatim>\<open>UnicodeDecodeError\<close>, which the \<^verbatim>\<open>except json.JSONDecodeError\<close> of \<^verbatim>\<open>_load_index\<close> does
  not catch, so the list operation fails.
\<close>

theorem list_conversations_undecodable_index:
  "list_conversations undecodable_store = (Inl UnicodeDecodeError, undecodable_store)"
  by (simp add: list_conversations_def load_index_def read_json_def undecodable_store_def)

section \<open>The stream flag\<close>

text \<open>
  C8. For every JSON body sent to the pull, chat, or generate endpoint, the stream flag
  defaults to true when absent; when the flag is false the request is forwarded as a
  buffered POST and the buffered JSON result is returned, and when it is true the request
  is forwarded as a streamed POST and the chunk sequence is returned with
  line-delimited-JSON framing.

  The body is a JSON object; the buffered branch answers with the buffered result or
  raises what the buffered call raised. A buffered result that is not JSON proper, one
  that holds a \<^verbatim>\<open>NaN\<close> or an infinity, is refused by \<^verbatim>\<open>JSONResponse\<close>.
\<close>

theorem stream_flag_dispatch:
  "(map_of p ''stream'' = None \<or> map_of p ''stream'' = Some (JBool True) \<longrightarrow>
      pull_model up (JObj p) =
        Inr (StreamingResponse (ollama_stream up ''/pull'' (JObj p)) ''application/x-ndjson'')
    \<and> chat up (JObj p) =
        Inr (StreamingResponse (ollama_stream up ''/chat'' (JObj p)) ''application/x-ndjson'')
    \<and> generate up (JObj p) =
        Inr (StreamingResponse (ollama_stream up ''/generate'' (JObj p)) ''application/x-ndjson''))
   \<and> (map_of p ''stream'' = Some (JBool False) \<longrightarrow>
      pull_model up (JObj p) =
        (case ollama_post_json up ''/pull'' (JObj p) of
           Inl e \<Rightarrow> Inl e
         | Inr data \<Rightarrow> if json_compliant data then Inr (JSONResponse data) else Inl ValueError)
    \<and> chat up (JObj p) =
        (case ollama_post_json up ''/chat'' (JObj p) of
           Inl e \<Rightarrow> Inl e
         | Inr data \<Rightarrow> if json_compliant data then Inr (JSONResponse data) else Inl ValueError)
    \<and> generate up (JObj p) =
        (case ollama_post_json up ''/generate'' (JObj p) of
           Inl e \<Rightarrow> Inl e
         | Inr data \<Rightarrow> if json_compliant data then Inr (JSONResponse data) else Inl ValueError))"
  by (auto simp: pull_model_def chat_def generate_def dict_get_default_def json_http_response_def
           split: sum.splits)

theorem stream_flag_dispatch_witness:
  "map_of [(''model'', JStr ''x'')] ''stream'' = None
   \<and> chat streaming_daemon (JObj [(''model'', JStr ''x'')]) =
       Inr (StreamingResponse (Inr [''[1]'' @ [CHR 0x0A], ''[2]'' @ [CHR 0x0A]])
              ''application/x-ndjson'')
   \<and> map_of [(''model'', JStr ''x''), (''stream'', JBool False)] ''stream'' = Some (JBool False)
   \<and> chat streaming_daemon (JObj [(''model'', JStr ''x''), (''stream'', JBool False)]) =
       Inr (JSONResponse (JArr [JInt 2]))
   \<and> generate failing_daemon (JObj [(''model'', JStr ''x''), (''stream'', JBool False)]) =
       Inl (HTTPException 500 ''model not found'')"
proof -
  have n: "map_of [(''model'', JStr ''x'')] ''stream'' = None"
    by simp
  have f: "map_of [(''model'', JStr ''x''), (''stream'', JBool False)] ''stream'' = Some (JBool False)"
    by simp
  from stream_flag_dispatch[of "[(''model'', JStr ''x'')]" streaming_daemon,
      THEN conjunct1, THEN mp, OF disjI1[OF n], THEN conjunct2, THEN conjunct1]
  have "chat streaming_daemon (JObj [(''model'', JStr ''x'')]) =
        Inr (StreamingResponse (ollama_stream streaming_daemon ''/chat'' (JObj [(''model'', JStr ''x'')]))
               ''application/x-ndjson'')"
    .
  then have a: "chat streaming_daemon (JObj [(''model'', JStr ''x'')]) =
       Inr (StreamingResponse (Inr [''[1]'' @ [CHR 0x0A], ''[2]'' @ [CHR 0x0A]])
              ''application/x-ndjson'')"
    by (simp add: ollama_stream_def streaming_daemon_def Let_def)
  from stream_flag_dispatch[of "[(''model'', JStr ''x''), (''stream'', JBool False)]" streaming_daemon,
      THEN conjunct2, THEN mp, OF f, THEN conjunct2, THEN conjunct1]
  have "chat streaming_daemon (JObj [(''model'', JStr ''x''), (''stream'', JBool False)]) =
        (case ollama_post_json streaming_daemon ''/chat''
                (JObj [(''model'', JStr ''x''), (''stream'', JBool False)]) of
           Inl e \<Rightarrow> Inl e
         | Inr data \<Rightarrow> if json_compliant data then Inr (JSONResponse data) else Inl ValueError)"
    .
  then have b: "chat streaming_daemon (JObj [(''model'', JStr ''x''), (''stream'', JBool False)]) =
       Inr (JSONResponse (JArr [JInt 2]))"
    by (simp add: ollama_post_json_def streaming_daemon_def Let_def)
  from stream_flag_dispatch[of "[(''model'', JStr ''x''), (''stream'', JBool False)]" failing_daemon,
      THEN conjunct2, THEN mp, OF f, THEN conjunct2, THEN conjunct2]
  have "generate failing_daemon (JObj [(''model'', JStr ''x''), (''stream'', JBool False)]) =
        (case ollama_post_json failing_daemon ''/generate''
                (JObj [(''model'', JStr ''x''), (''stream'', JBool False)]) of
           Inl e \<Rightarrow> Inl e
         | Inr data \<Rightarrow> if json_compliant data then Inr (JSONResponse data) else Inl ValueError)"
    .
  then have c: "generate failing_daemon (JObj [(''model'', JStr ''x''), (''stream'', JBool False)]) =
       Inl (HTTPException 500 ''model not found'')"
    by (simp add: ollama_post_json_def failing_daemon_def response_text_def
          decode_utf8_replace_valid[OF model_not_found_valid] Let_def
          del: decode_utf8_replace.simps)
  from n f a b c show ?thesis
    by (simp only: simp_thms)
qed

section \<open>Distinct ids\<close>



section \<open>Read-only handlers\<close>

text \<open>
  C10. The list operation and the get operation are read-only: for every storage state,
  after a list call or a get call (whether the id is found or not, and also when reading
  fails) the index artifact and every document artifact are unchanged.
\<close>

theorem list_and_get_read_only:
  "snd (list_conversations st) = st \<and> snd (get_conversation conv_id st) = st"
  by (simp add: list_conversations_def get_conversation_def
           split: sum.splits option.splits)

end
